theory Spec2Isabelle
  imports Main "HOL-Library.Word" "HOL-Library.AList"
begin

section \<open>Python values used by the service\<close>

text \<open>
  The module \<open>data_stream.py\<close> is embedded function by function. Python strings are
  \<open>string\<close>, Python integers are \<open>int\<close>, \<open>Optional[str]\<close> is \<open>string option\<close>
  (\<open>None\<close> for Python's \<open>None\<close>), and the bytes of an HTTP body are \<open>8 word\<close>.
  Exceptions are values: a function that can raise returns a sum whose left side is
  the exception, and a method of the service returns an \<open>outcome\<close>, which also says when
  the call never returns. Logging calls are left out; they change nothing the handlers
  read.
\<close>

type_synonym byte = "8 word"

datatype error =
    IndexError
  | ValueError string
  | AttributeError string
  | LibraryError string

text \<open>
  \<open>IndexError\<close>: \<open>xs[0]\<close> on an empty list. \<open>ValueError s\<close>: \<open>int(s)\<close> on a string
  that is no integer literal. \<open>AttributeError m\<close>: a method \<open>m\<close> called on \<open>None\<close>.
  \<open>LibraryError msg\<close>: an exception with text \<open>msg\<close> raised inside a call of sshtunnel,
  paramiko or httpx.
\<close>

text \<open>The truth value of an \<open>Optional[str]\<close> in \<open>if x:\<close>: false for \<open>None\<close> and for the empty string.\<close>

fun truthy :: "string option \<Rightarrow> bool" where
  "truthy None = False"
| "truthy (Some s) = (s \<noteq> [])"

text \<open>\<open>str(n)\<close> for an integer, as the f-strings of the module format a port.\<close>

definition digit_char :: "nat \<Rightarrow> char" where
  "digit_char d = ''0123456789'' ! d"

fun str_nat :: "nat \<Rightarrow> string" where
  "str_nat n = (if n < 10 then [digit_char n] else str_nat (n div 10) @ [digit_char (n mod 10)])"

declare str_nat.simps [simp del]

definition str_int :: "int \<Rightarrow> string" where
  "str_int i = (if i < 0 then CHR ''-'' # str_nat (nat (- i)) else str_nat (nat i))"

text \<open>
  \<open>int(s)\<close> for a string: surrounding whitespace is dropped, one sign is allowed, and
  the rest is decimal digits, where single underscores may stand between two digits.
  The whitespace \<open>int\<close> skips is tab to carriage return, the blank, and among the other
  code points below 256 the next-line and the no-break blank; the separators 28 to 31
  are not skipped.
\<close>

definition is_space :: "char \<Rightarrow> bool" where
  "is_space c = (let n = (of_char c :: nat) in (9 \<le> n \<and> n \<le> 13) \<or> n = 32 \<or> n = 133 \<or> n = 160)"

definition strip :: "string \<Rightarrow> string" where
  "strip s = rev (dropWhile is_space (rev (dropWhile is_space s)))"

definition is_digit :: "char \<Rightarrow> bool" where
  "is_digit c = (let n = (of_char c :: nat) in 48 \<le> n \<and> n \<le> 57)"

definition digit_val :: "char \<Rightarrow> nat" where
  "digit_val c = of_char c - 48"

fun parse_digits :: "nat \<Rightarrow> bool \<Rightarrow> string \<Rightarrow> nat option" where
  "parse_digits acc after_digit [] = (if after_digit then Some acc else None)"
| "parse_digits acc after_digit (c # cs) =
     (if is_digit c then parse_digits (10 * acc + digit_val c) True cs
      else if c = CHR ''_'' \<and> after_digit then parse_digits acc False cs
      else None)"

definition int_of_str :: "string \<Rightarrow> int option" where
  "int_of_str s =
     (case strip s of
        [] \<Rightarrow> None
      | c # cs \<Rightarrow>
          if c = CHR ''-'' then map_option (\<lambda>n. - int n) (parse_digits 0 False cs)
          else if c = CHR ''+'' then map_option int (parse_digits 0 False cs)
          else map_option int (parse_digits 0 False (c # cs)))"

text \<open>
  \<open>k.lower()\<close> on a header name. A \<open>char\<close> is a code point below 256: the letters
  \<open>A\<close> to \<open>Z\<close> and the Latin-1 capitals move up by 32, every other character stays.
\<close>

definition lower_char :: "char \<Rightarrow> char" where
  "lower_char c =
     (let n = (of_char c :: nat)
      in if (65 \<le> n \<and> n \<le> 90) \<or> (192 \<le> n \<and> n \<le> 222 \<and> n \<noteq> 215) then char_of (n + 32) else c)"

definition lower :: "string \<Rightarrow> string" where
  "lower s = map lower_char s"

section \<open>Settings and the SSH configuration resolver\<close>

text \<open>Class \<open>Settings\<close>: the fields and their types.\<close>

record Settings =
  ssh_host_alias :: "string option"
  ssh_host :: "string option"
  ssh_username :: "string option"
  ssh_key_path :: "string option"
  data_path :: string
  local_port :: int
  remote_port :: int
  fastapi_port :: int

text \<open>
  Dataclass \<open>SSHConfig\<close>. The annotations say \<open>hostname: str\<close> and \<open>username: str\<close>, but a
  dataclass stores what it is given, and both callers pass values that can be \<open>None\<close>;
  so both fields are optional here.
\<close>

record SSHConfig =
  hostname :: "string option"
  username :: "string option"
  key_filename :: "string option"
  port :: int

text \<open>
  The dictionary that \<open>paramiko.SSHConfig.lookup\<close> returns for an alias, restricted to
  the four keys the provider reads. A missing key is \<open>None\<close>; \<open>identityfile\<close> is a list.
\<close>

record host_config =
  hc_hostname :: "string option"
  hc_user :: "string option"
  hc_identityfile :: "string list option"
  hc_port :: "string option"

text \<open>
  Class \<open>SSHConfigProvider\<close>: its one field is the parsed configuration, of which only
  \<open>lookup\<close> is used. The parsed file is a parameter of the model. \<open>lookup\<close> of paramiko
  can raise (a host name that cannot be canonicalized, a \<open>Match exec\<close> that cannot run),
  so it returns an exception or the dictionary.
\<close>

record SSHConfigProvider =
  lookup :: "string \<Rightarrow> error + host_config"

text \<open>
  \<open>SSHConfigProvider.get_ssh_config\<close>. An exception of \<open>lookup\<close> passes through. The
  keyword arguments are evaluated in order:
  \<open>host_config.get('identityfile', [None])[0]\<close> raises \<open>IndexError\<close> on an empty list
  before \<open>int(host_config.get('port', 22))\<close> can raise \<open>ValueError\<close>.
\<close>

definition get_ssh_config :: "SSHConfigProvider \<Rightarrow> string \<Rightarrow> error + SSHConfig" where
  "get_ssh_config prov host_alias =
     (case lookup prov host_alias of
        Inl e \<Rightarrow> Inl e
      | Inr hc \<Rightarrow>
          (let h = (case hc_hostname hc of None \<Rightarrow> Some host_alias | Some x \<Rightarrow> Some x);
               u = hc_user hc
           in case hc_identityfile hc of
                Some [] \<Rightarrow> Inl IndexError
              | idf \<Rightarrow>
                  (let k = (case idf of None \<Rightarrow> None | Some fs \<Rightarrow> Some (hd fs))
                   in case hc_port hc of
                        None \<Rightarrow> Inr \<lparr>hostname = h, username = u, key_filename = k, port = 22\<rparr>
                      | Some p \<Rightarrow>
                          (case int_of_str p of
                             None \<Rightarrow> Inl (ValueError p)
                           | Some n \<Rightarrow>
                               Inr \<lparr>hostname = h, username = u, key_filename = k, port = n\<rparr>))))"

text \<open>
  \<open>DataProxyService._get_ssh_config\<close>, on the provider and the settings of the service.
  The test \<open>if self.settings.ssh_host_alias:\<close> is Python's truth value: an alias that is
  the empty string takes the branch of the direct parameters.
\<close>

definition DataProxyService_get_ssh_config :: "SSHConfigProvider \<Rightarrow> Settings \<Rightarrow> error + SSHConfig" where
  "DataProxyService_get_ssh_config prov st =
     (case ssh_host_alias st of
        Some a \<Rightarrow>
          if truthy (Some a) then get_ssh_config prov a
          else Inr \<lparr>hostname = ssh_host st, username = ssh_username st,
                    key_filename = ssh_key_path st, port = 22\<rparr>
      | None \<Rightarrow>
          Inr \<lparr>hostname = ssh_host st, username = ssh_username st,
               key_filename = ssh_key_path st, port = 22\<rparr>)"

section \<open>The service object and its life cycle\<close>

text \<open>
  The three resources of a \<open>DataProxyService\<close> are objects of httpx, paramiko and
  sshtunnel. The HTTP client and the SSH client are modelled by what they hold: nothing
  yet (\<open>Unopened\<close>), a socket or session (\<open>Open\<close>), or nothing any more (\<open>Closed\<close>). The
  SSH client also records the commands \<open>exec_command\<close> has sent, in order.
\<close>

datatype res_status = Unopened | Open | Closed

text \<open>
  An \<open>SSHTunnelForwarder\<close> has more states, and they matter to \<open>stop\<close>. \<open>TunnelCreated\<close>:
  constructed, nothing bound. \<open>TunnelBound\<close>: its forward server is created and bound to
  the local port, but no thread runs \<open>serve_forever\<close> on it; this is where \<open>start()\<close>
  leaves the object when the login at the gateway is refused. \<open>TunnelServing\<close>: the
  forward server is served by its thread. \<open>TunnelStopped\<close>: the server list is empty and
  the transport is closed.
\<close>

datatype tunnel_status = TunnelCreated | TunnelBound | TunnelServing | TunnelStopped

record SSHClient =
  ssh_status :: res_status
  executed :: "string list"

record DataProxyService =
  settings :: Settings
  tunnel :: "tunnel_status option"
  ssh_client :: "SSHClient option"
  client :: res_status
  ssh_config_provider :: SSHConfigProvider
  ssh_config :: SSHConfig

text \<open>
  \<open>DataProxyService.__init__\<close>. The provider (the parsed \<open>~/.ssh/config\<close>) is a parameter.
  \<open>httpx.AsyncClient()\<close> is an open client from its construction on.
\<close>

definition DataProxyService_init :: "SSHConfigProvider \<Rightarrow> Settings \<Rightarrow> error + DataProxyService" where
  "DataProxyService_init prov st =
     (case DataProxyService_get_ssh_config prov st of
        Inl e \<Rightarrow> Inl e
      | Inr c \<Rightarrow>
          Inr \<lparr>settings = st, tunnel = None, ssh_client = None, client = Open,
               ssh_config_provider = prov, ssh_config = c\<rparr>)"

text \<open>
  The calls into sshtunnel and paramiko that \<open>start\<close> makes, in the order of the source.
  The outside world is a parameter: \<open>raises env step = Some msg\<close> says that this call
  raises an exception with text \<open>msg\<close>, \<open>None\<close> that it returns; \<open>tunnel_left env\<close> is the
  state in which \<open>tunnel.start()\<close> leaves the tunnel when it raises (\<open>TunnelCreated\<close> when the
  gateway cannot be reached, \<open>TunnelBound\<close> when the login is refused, \<open>TunnelServing\<close> when
  the check of the running tunnel fails).
\<close>

datatype step =
    TunnelCreate | TunnelStart | SSHCreate | SSHSetPolicy | SSHConnect | ExecKill | ExecLaunch

record env =
  raises :: "step \<Rightarrow> string option"
  tunnel_left :: tunnel_status

text \<open>
  What a method of the service does: it returns (\<open>Done\<close>), it raises (\<open>Raised\<close>), or it
  never returns (\<open>Blocked\<close>). Each comes with the service object as it is at that moment,
  since the \<open>except\<close> block and the caller go on with that object.
\<close>

datatype outcome =
    Done DataProxyService
  | Raised error DataProxyService
  | Blocked DataProxyService

definition and_then :: "outcome \<Rightarrow> (DataProxyService \<Rightarrow> outcome) \<Rightarrow> outcome" where
  "and_then r f = (case r of Done s \<Rightarrow> f s | Raised e s \<Rightarrow> Raised e s | Blocked s \<Rightarrow> Blocked s)"

text \<open>The two shell commands, as the f-strings of \<open>start\<close> build them.\<close>

definition kill_pattern :: "int \<Rightarrow> string" where
  "kill_pattern p = ''python -m http.server '' @ str_int p"

definition kill_command :: "int \<Rightarrow> string" where
  "kill_command p = ''pkill -f '' @ [CHR 0x27] @ kill_pattern p @ [CHR 0x27]"

definition server_command :: "int \<Rightarrow> string" where
  "server_command p = ''python3 -m http.server '' @ str_int p"

definition launch_command :: "string \<Rightarrow> int \<Rightarrow> string" where
  "launch_command dir p = ''cd '' @ dir @ '' && '' @ server_command p @ '' > /dev/null 2>&1 &''"

text \<open>
  The statements of the \<open>try\<close> block, one function each. A method called on a field that
  is \<open>None\<close> raises \<open>AttributeError\<close>. A \<open>connect\<close> that raises may already hold a socket, so
  it leaves the SSH client \<open>Open\<close> in both cases.
\<close>

definition tunnel_create :: "env \<Rightarrow> DataProxyService \<Rightarrow> outcome" where
  "tunnel_create env s =
     (case raises env TunnelCreate of
        Some msg \<Rightarrow> Raised (LibraryError msg) s
      | None \<Rightarrow> Done (s\<lparr>tunnel := Some TunnelCreated\<rparr>))"

definition tunnel_start :: "env \<Rightarrow> DataProxyService \<Rightarrow> outcome" where
  "tunnel_start env s =
     (case tunnel s of
        None \<Rightarrow> Raised (AttributeError ''start'') s
      | Some t \<Rightarrow>
          (case raises env TunnelStart of
             Some msg \<Rightarrow> Raised (LibraryError msg) (s\<lparr>tunnel := Some (tunnel_left env)\<rparr>)
           | None \<Rightarrow> Done (s\<lparr>tunnel := Some TunnelServing\<rparr>)))"

definition ssh_create :: "env \<Rightarrow> DataProxyService \<Rightarrow> outcome" where
  "ssh_create env s =
     (case raises env SSHCreate of
        Some msg \<Rightarrow> Raised (LibraryError msg) s
      | None \<Rightarrow> Done (s\<lparr>ssh_client := Some \<lparr>ssh_status = Unopened, executed = []\<rparr>\<rparr>))"

definition ssh_set_policy :: "env \<Rightarrow> DataProxyService \<Rightarrow> outcome" where
  "ssh_set_policy env s =
     (case ssh_client s of
        None \<Rightarrow> Raised (AttributeError ''set_missing_host_key_policy'') s
      | Some c \<Rightarrow>
          (case raises env SSHSetPolicy of
             Some msg \<Rightarrow> Raised (LibraryError msg) s
           | None \<Rightarrow> Done s))"

definition ssh_connect :: "env \<Rightarrow> DataProxyService \<Rightarrow> outcome" where
  "ssh_connect env s =
     (case ssh_client s of
        None \<Rightarrow> Raised (AttributeError ''connect'') s
      | Some c \<Rightarrow>
          (case raises env SSHConnect of
             Some msg \<Rightarrow> Raised (LibraryError msg) (s\<lparr>ssh_client := Some (c\<lparr>ssh_status := Open\<rparr>)\<rparr>)
           | None \<Rightarrow> Done (s\<lparr>ssh_client := Some (c\<lparr>ssh_status := Open\<rparr>)\<rparr>)))"

definition exec_command :: "env \<Rightarrow> step \<Rightarrow> string \<Rightarrow> DataProxyService \<Rightarrow> outcome" where
  "exec_command env st cmd s =
     (case ssh_client s of
        None \<Rightarrow> Raised (AttributeError ''exec_command'') s
      | Some c \<Rightarrow>
          (case raises env st of
             Some msg \<Rightarrow> Raised (LibraryError msg) s
           | None \<Rightarrow> Done (s\<lparr>ssh_client := Some (c\<lparr>executed := executed c @ [cmd]\<rparr>)\<rparr>)))"

definition start_body :: "env \<Rightarrow> DataProxyService \<Rightarrow> outcome" where
  "start_body env s =
     and_then (tunnel_create env s) (\<lambda>s.
     and_then (tunnel_start env s) (\<lambda>s.
     and_then (ssh_create env s) (\<lambda>s.
     and_then (ssh_set_policy env s) (\<lambda>s.
     and_then (ssh_connect env s) (\<lambda>s.
     and_then (exec_command env ExecKill (kill_command (remote_port (settings s))) s) (\<lambda>s.
     exec_command env ExecLaunch
       (launch_command (data_path (settings s)) (remote_port (settings s))) s))))))"

text \<open>
  \<open>DataProxyService.stop\<close>. \<open>aclose\<close> of httpx and \<open>close\<close> of paramiko release what their
  object holds and return, whatever state it is in. \<open>stop()\<close> of sshtunnel calls
  \<open>shutdown()\<close> on every forward server in its list, and \<open>shutdown()\<close> of \<open>socketserver\<close>
  waits until \<open>serve_forever\<close> has left its loop: on a tunnel whose server is bound but
  not served (\<open>TunnelBound\<close>) that wait never ends. In every other state \<open>stop()\<close> returns
  with the tunnel stopped. The guards \<open>if self.ssh_client:\<close> and \<open>if self.tunnel:\<close> test
  for \<open>None\<close>: neither class defines a truth value of its own.
\<close>

definition ssh_close :: "DataProxyService \<Rightarrow> outcome" where
  "ssh_close s =
     (case ssh_client s of
        None \<Rightarrow> Raised (AttributeError ''close'') s
      | Some c \<Rightarrow> Done (s\<lparr>ssh_client := Some (c\<lparr>ssh_status := Closed\<rparr>)\<rparr>))"

definition tunnel_stop :: "DataProxyService \<Rightarrow> outcome" where
  "tunnel_stop s =
     (case tunnel s of
        None \<Rightarrow> Raised (AttributeError ''stop'') s
      | Some t \<Rightarrow> if t = TunnelBound then Blocked s else Done (s\<lparr>tunnel := Some TunnelStopped\<rparr>))"

definition stop :: "DataProxyService \<Rightarrow> outcome" where
  "stop s =
     and_then (Done (s\<lparr>client := Closed\<rparr>)) (\<lambda>s.
     and_then (if ssh_client s \<noteq> None then ssh_close s else Done s) (\<lambda>s.
     if tunnel s \<noteq> None then tunnel_stop s else Done s))"

text \<open>
  \<open>DataProxyService.start\<close>: the \<open>try\<close> block, and on any exception \<open>await self.stop()\<close>
  followed by \<open>raise\<close>. Were \<open>stop\<close> itself to raise, that exception would replace the
  first one; when \<open>stop\<close> does not return, neither does \<open>start\<close>.
\<close>

definition start :: "env \<Rightarrow> DataProxyService \<Rightarrow> outcome" where
  "start env s =
     (case start_body env s of
        Done s' \<Rightarrow> Done s'
      | Blocked s' \<Rightarrow> Blocked s'
      | Raised e s' \<Rightarrow>
          (case stop s' of
             Done s'' \<Rightarrow> Raised e s''
           | Raised e' s'' \<Rightarrow> Raised e' s''
           | Blocked s'' \<Rightarrow> Blocked s''))"

text \<open>
  \<open>startup_event\<close>: the global \<open>proxy_service\<close> is assigned once the constructor has
  returned, before \<open>start\<close> runs. The result is the exception, if any, and the global;
  it is \<open>None\<close> when \<open>start\<close> never returns.
\<close>

definition startup_event ::
  "SSHConfigProvider \<Rightarrow> Settings \<Rightarrow> env \<Rightarrow> (error option \<times> DataProxyService option) option" where
  "startup_event prov st env =
     (case DataProxyService_init prov st of
        Inl e \<Rightarrow> Some (Some e, None)
      | Inr s \<Rightarrow>
          (case start env s of
             Raised e s' \<Rightarrow> Some (Some e, Some s')
           | Done s' \<Rightarrow> Some (None, Some s')
           | Blocked s' \<Rightarrow> None))"

text \<open>
  \<open>pkill -f P\<close> signals every process whose full command line contains a match of the
  regular expression \<open>P\<close>. The patterns built by \<open>kill_pattern\<close> consist of ordinary
  characters and of \<open>.\<close>, which matches any one character.
\<close>

fun matches_here :: "string \<Rightarrow> string \<Rightarrow> bool" where
  "matches_here [] t = True"
| "matches_here (p # ps) [] = False"
| "matches_here (p # ps) (c # cs) = ((p = CHR ''.'' \<or> p = c) \<and> matches_here ps cs)"

fun pkill_f_matches :: "string \<Rightarrow> string \<Rightarrow> bool" where
  "pkill_f_matches pat [] = matches_here pat []"
| "pkill_f_matches pat (c # cs) = (matches_here pat (c # cs) \<or> pkill_f_matches pat cs)"

section \<open>The HTTP handlers\<close>

text \<open>
  The response object that \<open>await client.get(url)\<close> returns. A request made with \<open>get\<close>
  is not a streaming request: httpx reads the body to its end before \<open>get\<close> returns, and
  the response holds it as \<open>content\<close>. \<open>headers\<close> is the sequence \<open>response.headers.items()\<close>.
\<close>

record Response =
  status_code :: int
  headers :: "(string \<times> string) list"
  content :: "byte list"

text \<open>
  What \<open>client.get(url)\<close> does, a parameter of the model: it returns a response, raises
  a subclass of \<open>httpx.HTTPError\<close> (every transport error is one), or raises something else.
\<close>

datatype fetch = Fetched Response | HTTPError string | OtherException string

text \<open>\<open>response.headers.get(name)\<close>: header names compare without regard to case.\<close>

definition headers_get :: "(string \<times> string) list \<Rightarrow> string \<Rightarrow> string option" where
  "headers_get hs name = map_of (map (\<lambda>(k, v). (lower k, v)) hs) (lower name)"

text \<open>
  \<open>response.aiter_bytes()\<close> with no chunk size, on a response whose body has been read:
  httpx yields slices of \<open>content\<close> of the length of \<open>content\<close>, that is the whole body
  as one chunk, and nothing for an empty body. \<open>iterfile\<close> passes every chunk on.
\<close>

definition aiter_bytes :: "Response \<Rightarrow> byte list list" where
  "aiter_bytes r = (if content r = [] then [] else [content r])"

definition iterfile :: "Response \<Rightarrow> byte list list" where
  "iterfile r = aiter_bytes r"

text \<open>A dictionary comprehension: keys keep the place of their first entry, a later value replaces an earlier one.\<close>

definition dict_of :: "(string \<times> string) list \<Rightarrow> (string \<times> string) list" where
  "dict_of kvs = fold (\<lambda>(k, v) d. AList.update k v d) kvs []"

text \<open>
  The arguments of \<open>StreamingResponse(...)\<close>. The call gives no \<open>status_code\<close>, so the
  response has the default of the class, 200.
\<close>

record StreamingResponse =
  sr_status_code :: int
  media_type :: "string option"
  sr_headers :: "(string \<times> string) list"
  body_iterator :: "byte list list"

datatype handler_result =
    Returns StreamingResponse
  | HTTPException int string
  | Raises error

text \<open>
  \<open>proxy_data\<close>; \<open>request_url\<close> is its f-string \<open>url\<close>. The handler reads the global \<open>proxy_service\<close> and never assigns it; the
  global is returned beside the result to make that visible. \<open>HTTPException\<close> is no
  \<open>httpx.HTTPError\<close>, so the 404 raised inside the \<open>try\<close> passes the \<open>except\<close> clause.
\<close>

definition request_url :: "int \<Rightarrow> string \<Rightarrow> string" where
  "request_url lport filename = ''http://127.0.0.1:'' @ str_int lport @ ''/'' @ filename"

definition proxy_data ::
  "DataProxyService option \<Rightarrow> (string \<Rightarrow> fetch) \<Rightarrow> string \<Rightarrow> handler_result \<times> DataProxyService option" where
  "proxy_data proxy_service get filename =
     (case proxy_service of
        None \<Rightarrow> (Raises (AttributeError ''settings''), proxy_service)
      | Some svc \<Rightarrow>
          (let url = request_url (local_port (settings svc)) filename
           in case get url of
                HTTPError msg \<Rightarrow> (HTTPException 500 msg, proxy_service)
              | OtherException msg \<Rightarrow> (Raises (LibraryError msg), proxy_service)
              | Fetched response \<Rightarrow>
                  if status_code response = 404
                  then (HTTPException 404 ''File not found'', proxy_service)
                  else (Returns
                          \<lparr>sr_status_code = 200,
                           media_type = headers_get (headers response) ''content-type'',
                           sr_headers = dict_of (filter (\<lambda>(k, v). lower k \<noteq> ''content-length'')
                                                  (headers response)),
                           body_iterator = iterfile response\<rparr>,
                        proxy_service)))"

text \<open>\<open>health_check\<close>: the JSON object it returns, as a record.\<close>

record health =
  status :: string
  conn_hostname :: "string option"
  conn_username :: "string option"
  using_ssh_config :: bool

definition health_check :: "DataProxyService option \<Rightarrow> error + health" where
  "health_check proxy_service =
     (case proxy_service of
        None \<Rightarrow> Inl (AttributeError ''ssh_config'')
      | Some svc \<Rightarrow>
          Inr \<lparr>status = ''OK'',
               conn_hostname = hostname (ssh_config svc),
               conn_username = username (ssh_config svc),
               using_ssh_config = (ssh_host_alias (settings svc) \<noteq> None)\<rparr>)"

section \<open>Predicates of the specification and example objects\<close>



text \<open>No resource of the service holds a socket or a session.\<close>

definition released :: "DataProxyService \<Rightarrow> bool" where
  "released s =
     (client s = Closed \<and>
      (case ssh_client s of None \<Rightarrow> True | Some c \<Rightarrow> ssh_status c = Closed) \<and>
      (case tunnel s of None \<Rightarrow> True | Some t \<Rightarrow> t = TunnelStopped))"

text \<open>
  The scenario of the specification: direct parameters, \<open>data_path=/srv/data\<close>,
  \<open>local_port=9000\<close>, \<open>remote_port=9001\<close>; and an SSH configuration with one alias.
\<close>

definition example_settings :: Settings where
  "example_settings =
     \<lparr>ssh_host_alias = None, ssh_host = Some ''files.example.org'', ssh_username = Some ''alice'',
      ssh_key_path = None, data_path = ''/srv/data'', local_port = 9000, remote_port = 9001,
      fastapi_port = 5000\<rparr>"

definition example_provider :: SSHConfigProvider where
  "example_provider =
     \<lparr>lookup = (\<lambda>a. if a = ''lab''
        then Inr \<lparr>hc_hostname = Some ''lab.example.org'', hc_user = Some ''bob'',
                  hc_identityfile = Some [''/home/bob/.ssh/id_ed25519''], hc_port = Some ''2222''\<rparr>
        else if a = ''far''
        then Inl (LibraryError ''CouldNotCanonicalize'')
        else Inr \<lparr>hc_hostname = None, hc_user = None, hc_identityfile = None, hc_port = None\<rparr>)\<rparr>"

definition example_service :: DataProxyService where
  "example_service =
     \<lparr>settings = example_settings, tunnel = None, ssh_client = None, client = Open,
      ssh_config_provider = example_provider,
      ssh_config = \<lparr>hostname = Some ''files.example.org'', username = Some ''alice'',
                    key_filename = None, port = 22\<rparr>\<rparr>"


definition empty_alias_settings :: Settings where
  "empty_alias_settings = example_settings\<lparr>ssh_host_alias := Some []\<rparr>"

text \<open>An upstream file server behind the tunnel of the example, seen through \<open>client.get\<close>.\<close>

definition example_upstream :: "string \<Rightarrow> fetch" where
  "example_upstream url =
     (if url = ''http://127.0.0.1:9000/report.pdf''
      then Fetched \<lparr>status_code = 200,
                    headers = [(''Server'', ''SimpleHTTP/0.6''), (''Content-Length'', ''4''),
                               (''Content-Type'', ''application/pdf'')],
                    content = [0x25, 0x50, 0x44, 0x46]\<rparr>
      else if url = ''http://127.0.0.1:9000/private/''
      then Fetched \<lparr>status_code = 403, headers = [(''content-type'', ''text/html'')],
                    content = [0x6E, 0x6F]\<rparr>
      else if url = ''http://127.0.0.1:9000/missing.txt''
      then Fetched \<lparr>status_code = 404, headers = [(''content-type'', ''text/html'')],
                    content = [0x3F]\<rparr>
      else HTTPError ''All connection attempts failed'')"

text \<open>Settings that name the alias of the example configuration.\<close>

definition alias_settings :: Settings where
  "alias_settings = example_settings\<lparr>ssh_host_alias := Some ''lab'', ssh_host := None, ssh_username := None\<rparr>"

text \<open>
  Outside worlds: one in which every call of \<open>start\<close> returns; one in which the gateway
  refuses the login, so that \<open>tunnel.start()\<close> raises with its forward server bound; one
  in which the tunnel is up and \<open>connect\<close> of the SSH client raises.
\<close>

definition all_ok :: env where
  "all_ok = \<lparr>raises = (\<lambda>st. None), tunnel_left = TunnelCreated\<rparr>"

definition gateway_login_refused :: env where
  "gateway_login_refused =
     \<lparr>raises = (\<lambda>st. if st = TunnelStart then Some ''Could not establish session to SSH gateway''
                       else None),
      tunnel_left = TunnelBound\<rparr>"

definition connect_refused :: env where
  "connect_refused =
     \<lparr>raises = (\<lambda>st. if st = SSHConnect then Some ''Authentication failed.'' else None),
      tunnel_left = TunnelCreated\<rparr>"

text \<open>The characters of a formatted port: a sign and the ten digits.\<close>

definition port_chars :: "char set" where
  "port_chars = set ''-0123456789''"

section \<open>Evaluation of the examples\<close>

lemma str_int_9000: "str_int 9000 = ''9000''"
  by (simp add: str_int_def str_nat.simps digit_char_def)

lemma example_url: "request_url (local_port (settings example_service)) f = ''http://127.0.0.1:9000/'' @ f"
  by (simp add: request_url_def example_service_def example_settings_def str_int_9000)

lemma example_init: "DataProxyService_init example_provider example_settings = Inr example_service"
  by (simp add: DataProxyService_init_def DataProxyService_get_ssh_config_def
      example_settings_def example_service_def)

section \<open>The data handler\<close>

text \<open>
  Claim C2. When the upstream server answers the request for
  \<open>http://127.0.0.1:{local_port}/{path}\<close> with status 404, the handler raises
  \<open>HTTPException\<close> with status 404 and detail "File not found", which is what the caller
  receives.
\<close>

theorem proxy_data_upstream_404:
  "get (request_url (local_port (settings svc)) filename) = Fetched r \<Longrightarrow>
   status_code r = 404 \<Longrightarrow>
   fst (proxy_data (Some svc) get filename) = HTTPException 404 ''File not found''"
  by (simp add: proxy_data_def)

theorem proxy_data_upstream_404_witness:
  "fst (proxy_data (Some example_service) example_upstream ''missing.txt'')
     = HTTPException 404 ''File not found''"
proof -
  have u: "example_upstream (request_url (local_port (settings example_service)) ''missing.txt'')
      = Fetched \<lparr>status_code = 404, headers = [(''content-type'', ''text/html'')], content = [0x3F]\<rparr>"
    by (simp add: example_url example_upstream_def)
  show ?thesis
    using proxy_data_upstream_404 [of example_upstream example_service "''missing.txt''", OF u] by simp
qed

text \<open>
  Claim C4. When the upstream fetch raises a transport error (an \<open>httpx.HTTPError\<close>), the
  handler raises \<open>HTTPException\<close> with status 500 whose detail is the text of that error,
  and the service object every request shares is left as it was.
\<close>

theorem proxy_data_transport_error:
  "get (request_url (local_port (settings svc)) filename) = HTTPError msg \<Longrightarrow>
   proxy_data (Some svc) get filename = (HTTPException 500 msg, Some svc)"
  by (simp add: proxy_data_def)

theorem proxy_data_transport_error_witness:
  "proxy_data (Some example_service) example_upstream ''down.bin''
     = (HTTPException 500 ''All connection attempts failed'', Some example_service)"
proof -
  have u: "example_upstream (request_url (local_port (settings example_service)) ''down.bin'')
      = HTTPError ''All connection attempts failed''"
    by (simp add: example_url example_upstream_def)
  show ?thesis
    using proxy_data_transport_error [of example_upstream example_service "''down.bin''", OF u] by simp
qed

text \<open>
  Claim C5. For an upstream response whose status is not 404, whatever it is (403 and
  500 included), the handler returns a response with status 200 whose chunks, put
  together, are the upstream body; the upstream status does not reach the caller.
\<close>

theorem proxy_data_status_not_propagated:
  "get (request_url (local_port (settings svc)) filename) = Fetched r \<Longrightarrow>
   status_code r \<noteq> 404 \<Longrightarrow>
   (\<exists>sr. fst (proxy_data (Some svc) get filename) = Returns sr \<and>
         sr_status_code sr = 200 \<and> concat (body_iterator sr) = content r)"
  by (simp add: proxy_data_def iterfile_def aiter_bytes_def)

theorem proxy_data_status_not_propagated_witness:
  "\<exists>sr. fst (proxy_data (Some example_service) example_upstream ''private/'') = Returns sr \<and>
        sr_status_code sr = 200 \<and> concat (body_iterator sr) = [0x6E, 0x6F]"
proof -
  have u: "example_upstream (request_url (local_port (settings example_service)) ''private/'')
      = Fetched \<lparr>status_code = 403, headers = [(''content-type'', ''text/html'')],
                  content = [0x6E, 0x6F]\<rparr>"
    by (simp add: example_url example_upstream_def)
  show ?thesis
    using proxy_data_status_not_propagated [of example_upstream example_service "''private/''", OF u] by simp
qed

subsection \<open>The dictionary of forwarded headers\<close>

lemma map_of_fold_update:
  "map_of (fold (\<lambda>(k, v) d. AList.update k v d) kvs acc) k
     = (case map_of (rev kvs) k of None \<Rightarrow> map_of acc k | Some v \<Rightarrow> Some v)"
proof (induction kvs arbitrary: acc)
  case Nil
  then show ?case by simp
next
  case (Cons p kvs)
  obtain a b where p: "p = (a, b)" by (cases p)
  show ?case
    by (simp add: p Cons.IH update_conv' map_add_def split: option.splits)
qed

lemma map_of_dict_of: "map_of (dict_of kvs) k = map_of (rev kvs) k"
  by (simp add: dict_of_def map_of_fold_update split: option.splits)

lemma set_update_subset: "set (AList.update k v al) \<subseteq> insert (k, v) (set al)"
  by (induction al) auto

lemma set_fold_update:
  "set (fold (\<lambda>(k, v) d. AList.update k v d) kvs acc) \<subseteq> set acc \<union> set kvs"
proof (induction kvs arbitrary: acc)
  case Nil
  then show ?case by simp
next
  case (Cons p kvs)
  obtain a b where p: "p = (a, b)" by (cases p)
  have "set (fold (\<lambda>(k, v) d. AList.update k v d) kvs (AList.update a b acc))
      \<subseteq> set (AList.update a b acc) \<union> set kvs"
    by (rule Cons.IH)
  also have "\<dots> \<subseteq> insert (a, b) (set acc) \<union> set kvs"
    using set_update_subset [of a b acc] by blast
  finally show ?case by (auto simp: p)
qed

lemma set_dict_of: "set (dict_of kvs) \<subseteq> set kvs"
  using set_fold_update [of kvs "[]"] by (simp add: dict_of_def)

lemma distinct_fold_update:
  "distinct (map fst acc) \<Longrightarrow> distinct (map fst (fold (\<lambda>(k, v) d. AList.update k v d) kvs acc))"
proof (induction kvs arbitrary: acc)
  case Nil
  then show ?case by simp
next
  case (Cons p kvs)
  obtain a b where p: "p = (a, b)" by (cases p)
  show ?case
    using Cons.prems by (simp add: p Cons.IH distinct_update)
qed

lemma distinct_dict_of: "distinct (map fst (dict_of kvs))"
  by (simp add: dict_of_def distinct_fold_update)

lemma map_of_filter_key:
  "map_of (filter (\<lambda>(k, v). P k) xs) k = (if P k then map_of xs k else None)"
  by (induction xs) auto

lemma map_of_kept_headers:
  "map_of (dict_of (filter (\<lambda>(k, v). lower k \<noteq> ''content-length'') hs)) k
     = (if lower k = ''content-length'' then None else map_of (rev hs) k)"
proof -
  have "map_of (dict_of (filter (\<lambda>(k, v). lower k \<noteq> ''content-length'') hs)) k
      = map_of (filter (\<lambda>(k, v). lower k \<noteq> ''content-length'') (rev hs)) k"
    by (simp only: map_of_dict_of rev_filter)
  also have "\<dots> = (if lower k \<noteq> ''content-length'' then map_of (rev hs) k else None)"
    by (rule map_of_filter_key)
  finally show ?thesis by simp
qed

lemma set_kept_headers:
  "set (dict_of (filter (\<lambda>(k, v). lower k \<noteq> ''content-length'') hs)) \<subseteq> set hs"
  using set_dict_of [of "filter (\<lambda>(k, v). lower k \<noteq> ''content-length'') hs"] by auto

lemma headers_get_find:
  "map_of (map (\<lambda>(k, v). (lower k, v)) hs) x
     = (case find (\<lambda>(k, v). lower k = x) hs of None \<Rightarrow> None | Some (k, v) \<Rightarrow> Some v)"
  by (induction hs) auto

lemma lower_content_type: "lower ''content-type'' = ''content-type''"
  by code_simp

lemma lower_content_length:
  "lower ''content-length'' = ''content-length''"
  "lower ''Content-Length'' = ''content-length''"
  "lower ''CONTENT-LENGTH'' = ''content-length''"
  by code_simp+

lemma report_media_type:
  "(case find (\<lambda>(k, v). lower k = ''content-type'')
           [(''Server'', ''SimpleHTTP/0.6''), (''Content-Length'', ''4''),
            (''Content-Type'', ''application/pdf'')]
    of None \<Rightarrow> None | Some (k, v) \<Rightarrow> Some v) = Some ''application/pdf''"
  by code_simp

lemma report_kept:
  "(if lower ''Server'' = ''content-length'' then None
    else map_of (rev [(''Server'', ''SimpleHTTP/0.6''), (''Content-Length'', ''4''),
                      (''Content-Type'', ''application/pdf'')]) ''Server'') = Some ''SimpleHTTP/0.6''"
  "(if lower ''Content-Type'' = ''content-length'' then None
    else map_of (rev [(''Server'', ''SimpleHTTP/0.6''), (''Content-Length'', ''4''),
                      (''Content-Type'', ''application/pdf'')]) ''Content-Type'') = Some ''application/pdf''"
  by code_simp+

text \<open>
  Claim C3. For an upstream response that is not a 404, the media type of the response
  is the value of the first upstream header whose name is \<open>content-type\<close> in any case
  (none when there is no such header). The headers of the response are upstream headers;
  every header name other than \<open>content-length\<close> in any case keeps the value the upstream
  response has for it; and no header named \<open>content-length\<close>, \<open>Content-Length\<close> or
  \<open>CONTENT-LENGTH\<close> is forwarded.
\<close>

theorem proxy_data_forwards_headers:
  "get (request_url (local_port (settings svc)) filename) = Fetched r \<Longrightarrow>
   status_code r \<noteq> 404 \<Longrightarrow>
   (\<exists>sr. fst (proxy_data (Some svc) get filename) = Returns sr \<and>
         media_type sr = (case find (\<lambda>(k, v). lower k = ''content-type'') (headers r)
                          of None \<Rightarrow> None | Some (k, v) \<Rightarrow> Some v) \<and>
         set (sr_headers sr) \<subseteq> set (headers r) \<and>
         (\<forall>k. map_of (sr_headers sr) k
                = (if lower k = ''content-length'' then None else map_of (rev (headers r)) k)) \<and>
         map_of (sr_headers sr) ''content-length'' = None \<and>
         map_of (sr_headers sr) ''Content-Length'' = None \<and>
         map_of (sr_headers sr) ''CONTENT-LENGTH'' = None)"
  by (simp add: proxy_data_def map_of_kept_headers set_kept_headers headers_get_def
      headers_get_find lower_content_type lower_content_length)

theorem proxy_data_forwards_headers_witness:
  "\<exists>sr. fst (proxy_data (Some example_service) example_upstream ''report.pdf'') = Returns sr \<and>
        media_type sr = Some ''application/pdf'' \<and>
        set (sr_headers sr) \<subseteq> {(''Server'', ''SimpleHTTP/0.6''), (''Content-Length'', ''4''),
                                (''Content-Type'', ''application/pdf'')} \<and>
        map_of (sr_headers sr) ''Server'' = Some ''SimpleHTTP/0.6'' \<and>
        map_of (sr_headers sr) ''Content-Type'' = Some ''application/pdf'' \<and>
        map_of (sr_headers sr) ''Content-Length'' = None"
proof -
  let ?hs = "[(''Server'', ''SimpleHTTP/0.6''), (''Content-Length'', ''4''),
              (''Content-Type'', ''application/pdf'')]"
  let ?r = "\<lparr>status_code = 200, headers = ?hs, content = [0x25, 0x50, 0x44, 0x46 :: byte]\<rparr>"
  have u: "example_upstream (request_url (local_port (settings example_service)) ''report.pdf'')
      = Fetched ?r"
    by (simp add: example_url example_upstream_def)
  have ne: "status_code ?r \<noteq> 404"
    by simp
  have hs: "headers ?r = ?hs"
    by simp
  from proxy_data_forwards_headers [of example_upstream example_service "''report.pdf''", OF u ne]
  obtain sr where a: "fst (proxy_data (Some example_service) example_upstream ''report.pdf'') = Returns sr"
    and b: "media_type sr = (case find (\<lambda>(k, v). lower k = ''content-type'') (headers ?r)
                             of None \<Rightarrow> None | Some (k, v) \<Rightarrow> Some v)"
    and c: "set (sr_headers sr) \<subseteq> set (headers ?r)"
    and d: "\<forall>k. map_of (sr_headers sr) k
                = (if lower k = ''content-length'' then None else map_of (rev (headers ?r)) k)"
    and e: "map_of (sr_headers sr) ''Content-Length'' = None"
    by blast
  have b': "media_type sr = Some ''application/pdf''"
    using b unfolding hs by (simp only: report_media_type)
  have c': "set (sr_headers sr) \<subseteq> {(''Server'', ''SimpleHTTP/0.6''), (''Content-Length'', ''4''),
                                (''Content-Type'', ''application/pdf'')}"
    using c by simp
  have d1: "map_of (sr_headers sr) ''Server'' = Some ''SimpleHTTP/0.6''"
    using d [rule_format, of "''Server''"] unfolding hs by (simp only: report_kept)
  have d2: "map_of (sr_headers sr) ''Content-Type'' = Some ''application/pdf''"
    using d [rule_format, of "''Content-Type''"] unfolding hs by (simp only: report_kept)
  show ?thesis
    using a b' c' d1 d2 e by (intro exI [of _ sr] conjI)
qed

text \<open>
  Claim C1, which the code does not meet. \<open>client.get\<close> returns only when the whole
  upstream body is in \<open>response.content\<close>, and \<open>aiter_bytes\<close> then yields that body as a
  single chunk: for a body of any size the iterator handed to \<open>StreamingResponse\<close> has
  one element, the body itself. The size of the chunk, and the memory held by the handler,
  grow with the file.
\<close>

theorem proxy_data_buffers_whole_body:
  "proxy_data (Some svc) (\<lambda>url. Fetched \<lparr>status_code = 200, headers = hs, content = b # bs\<rparr>) filename
     = (Returns \<lparr>sr_status_code = 200,
                 media_type = headers_get hs ''content-type'',
                 sr_headers = dict_of (filter (\<lambda>(k, v). lower k \<noteq> ''content-length'') hs),
                 body_iterator = [b # bs]\<rparr>, Some svc)"
  by (simp add: proxy_data_def iterfile_def aiter_bytes_def)


section \<open>The SSH configuration resolver\<close>

lemma int_of_str_examples:
  "int_of_str ''2222'' = Some 2222"
  "int_of_str '' 22 '' = Some 22"
  "int_of_str ''2_2'' = Some 22"
  "int_of_str ([CHR 0x1C] @ ''22'') = None"
  "int_of_str ''ssh'' = None"
  by code_simp+



lemma lookup_failure_passes_through:
  "DataProxyService_get_ssh_config example_provider (alias_settings\<lparr>ssh_host_alias := Some ''far''\<rparr>)
     = Inl (LibraryError ''CouldNotCanonicalize'')"
  by code_simp




section \<open>Starting and stopping\<close>

lemma stop_eq:
  "tunnel s \<noteq> Some TunnelBound \<Longrightarrow>
   stop s = Done (s\<lparr>client := Closed,
                    ssh_client := map_option (\<lambda>c. c\<lparr>ssh_status := Closed\<rparr>) (ssh_client s),
                    tunnel := map_option (\<lambda>t. TunnelStopped) (tunnel s)\<rparr>)"
  by (cases "ssh_client s"; cases "tunnel s")
     (simp_all add: stop_def and_then_def ssh_close_def tunnel_stop_def)

lemma stop_bound:
  "tunnel s = Some TunnelBound \<Longrightarrow>
   stop s = Blocked (s\<lparr>client := Closed,
                       ssh_client := map_option (\<lambda>c. c\<lparr>ssh_status := Closed\<rparr>) (ssh_client s)\<rparr>)"
  by (cases "ssh_client s")
     (simp_all add: stop_def and_then_def ssh_close_def tunnel_stop_def)

lemma stop_never_raises: "stop s \<noteq> Raised e s'"
  by (cases "tunnel s = Some TunnelBound") (simp_all add: stop_eq stop_bound)

lemma stop_released: "stop s = Done s' \<Longrightarrow> released s'"
  by (cases "tunnel s = Some TunnelBound"; cases "ssh_client s"; cases "tunnel s")
     (auto simp add: stop_eq stop_bound released_def)

lemma stop_again: "stop s = Done s' \<Longrightarrow> stop s' = Done s'"
  by (cases "tunnel s = Some TunnelBound"; cases "ssh_client s"; cases "tunnel s")
     (auto simp add: stop_eq stop_bound)

lemma start_body_Done: "start_body env s = Done s' \<Longrightarrow> raises env st = None"
  by (cases st)
     (auto simp add: start_body_def and_then_def tunnel_create_def tunnel_start_def
      ssh_create_def ssh_set_policy_def ssh_connect_def exec_command_def
      split: option.splits)

lemma start_body_not_Blocked: "start_body env s \<noteq> Blocked s'"
  by (auto simp add: start_body_def and_then_def tunnel_create_def tunnel_start_def
      ssh_create_def ssh_set_policy_def ssh_connect_def exec_command_def
      split: option.splits)

lemma start_body_Raised:
  "start_body env s = Raised e m \<Longrightarrow>
   (\<exists>st msg. raises env st = Some msg \<and> e = LibraryError msg) \<and>
   (tunnel m = tunnel s \<or> tunnel m = Some (tunnel_left env) \<or> tunnel m = Some TunnelServing)"
  by (auto simp add: start_body_def and_then_def tunnel_create_def tunnel_start_def
      ssh_create_def ssh_set_policy_def ssh_connect_def exec_command_def
      split: option.splits)

lemma start_Done_fields:
  "start env s = Done s' \<Longrightarrow>
   settings s' = settings s \<and> ssh_config s' = ssh_config s \<and>
   (\<exists>c. ssh_client s' = Some c \<and>
        executed c = [kill_command (remote_port (settings s)),
                      launch_command (data_path (settings s)) (remote_port (settings s))])"
  by (auto simp add: start_def start_body_def and_then_def tunnel_create_def
      tunnel_start_def ssh_create_def ssh_set_policy_def ssh_connect_def exec_command_def
      split: option.splits outcome.splits)

text \<open>
  What does hold of the teardown: on a fresh service object, when a call of \<open>start\<close>
  raises and \<open>tunnel.start()\<close> has not left its forward server bound and unserved,
  \<open>stop\<close> runs to its end, everything is released, and \<open>start\<close> raises the exception of
  the first failing call.
\<close>

lemma start_failure_runs_stop_unless_bound:
  assumes f: "raises env st = Some msg"
    and fresh: "tunnel s = None"
    and nb: "tunnel_left env \<noteq> TunnelBound"
  shows "\<exists>e m s'. start_body env s = Raised e m \<and> stop m = Done s' \<and>
                  start env s = Raised e s' \<and> released s' \<and>
                  (\<exists>st' msg'. raises env st' = Some msg' \<and> e = LibraryError msg')"
proof -
  obtain e m where b: "start_body env s = Raised e m"
  proof (cases "start_body env s")
    case (Done s')
    then have "raises env st = None" by (rule start_body_Done)
    with f show ?thesis by simp
  next
    case (Raised e m)
    then show ?thesis using that by simp
  next
    case (Blocked s')
    then show ?thesis using start_body_not_Blocked by simp
  qed
  from start_body_Raised [OF b] fresh nb have "tunnel m \<noteq> Some TunnelBound"
    by auto
  then obtain s' where t: "stop m = Done s'"
    using stop_eq [of m] by blast
  have "start env s = Raised e s'"
    by (simp add: start_def b t)
  moreover have "released s'"
    using t by (rule stop_released)
  moreover have "\<exists>st' msg'. raises env st' = Some msg' \<and> e = LibraryError msg'"
    using start_body_Raised [OF b] by blast
  ultimately show ?thesis
    using b t by blast
qed

lemma connect_refused_unwinds:
  "start connect_refused example_service
     = Raised (LibraryError ''Authentication failed.'')
         (example_service\<lparr>tunnel := Some TunnelStopped,
                          ssh_client := Some \<lparr>ssh_status = Closed, executed = []\<rparr>,
                          client := Closed\<rparr>)"
  by (simp add: start_def start_body_def and_then_def tunnel_create_def tunnel_start_def
      ssh_create_def ssh_set_policy_def ssh_connect_def stop_def ssh_close_def tunnel_stop_def
      connect_refused_def example_service_def)

lemma gateway_login_refused_body:
  "start_body gateway_login_refused example_service
     = Raised (LibraryError ''Could not establish session to SSH gateway'')
         (example_service\<lparr>tunnel := Some TunnelBound\<rparr>)"
  by (simp add: start_body_def and_then_def tunnel_create_def tunnel_start_def
      gateway_login_refused_def example_service_def)

text \<open>
  Claim C9, which the code does not meet. When the gateway refuses the login,
  \<open>tunnel.start()\<close> raises with its forward server bound but not served. The \<open>except\<close>
  block then runs \<open>stop\<close>, which closes the HTTP client and blocks in \<open>tunnel.stop()\<close>:
  \<open>start\<close> never returns, the startup error is never propagated, and the tunnel keeps
  its listening socket.
\<close>

theorem start_blocks_when_gateway_login_refused:
  "start gateway_login_refused example_service
     = Blocked (example_service\<lparr>tunnel := Some TunnelBound, client := Closed\<rparr>) \<and>
   \<not> released (example_service\<lparr>tunnel := Some TunnelBound, client := Closed\<rparr>)"
proof -
  have "start gateway_login_refused example_service
      = Blocked (example_service\<lparr>tunnel := Some TunnelBound, client := Closed\<rparr>)"
    by (simp add: start_def gateway_login_refused_body stop_bound) (simp add: example_service_def)
  moreover have "\<not> released (example_service\<lparr>tunnel := Some TunnelBound, client := Closed\<rparr>)"
    by (simp add: released_def)
  ultimately show ?thesis by simp
qed

text \<open>
  Claim C10, which the code does not meet, by the same defect. On a service object
  whose \<open>start\<close> failed partway with the forward server of the tunnel bound but not
  served, \<open>stop\<close> does not return: it closes the HTTP client and the SSH client, if there
  is one, and blocks in \<open>tunnel.stop()\<close>, the tunnel still bound. In every other state
  \<open>stop\<close> returns, releases everything and is idempotent (\<open>stop_eq\<close>, \<open>stop_released\<close>,
  \<open>stop_again\<close>).
\<close>

theorem stop_blocks_on_bound_tunnel:
  "stop (s\<lparr>tunnel := Some TunnelBound\<rparr>)
     = Blocked (s\<lparr>tunnel := Some TunnelBound, client := Closed,
                  ssh_client := map_option (\<lambda>c. c\<lparr>ssh_status := Closed\<rparr>) (ssh_client s)\<rparr>)"
  by (simp add: stop_bound)

lemma stop_never_started:
  "stop example_service = Done (example_service\<lparr>client := Closed\<rparr>) \<and>
   stop (example_service\<lparr>client := Closed\<rparr>) = Done (example_service\<lparr>client := Closed\<rparr>)"
  by (simp add: stop_eq example_service_def)

lemma stop_running:
  "start all_ok example_service = Done s' \<Longrightarrow>
   stop s' = Done (s'\<lparr>client := Closed,
                      ssh_client := map_option (\<lambda>c. c\<lparr>ssh_status := Closed\<rparr>) (ssh_client s'),
                      tunnel := Some TunnelStopped\<rparr>)"
  by (auto simp add: start_def start_body_def and_then_def tunnel_create_def tunnel_start_def
      ssh_create_def ssh_set_policy_def ssh_connect_def exec_command_def all_ok_def stop_eq
      split: outcome.splits)

section \<open>The health endpoint\<close>

lemma startup_event_service:
  "startup_event prov st env = Some (None, Some svc) \<Longrightarrow>
   settings svc = st \<and> DataProxyService_get_ssh_config prov st = Inr (ssh_config svc)"
  by (auto simp add: startup_event_def DataProxyService_init_def
      split: sum.splits outcome.splits dest!: start_Done_fields)

lemma health_check_agrees_unless_empty_alias:
  "startup_event prov st env = Some (None, Some svc) \<Longrightarrow> ssh_host_alias st \<noteq> Some [] \<Longrightarrow>
   \<exists>c. DataProxyService_get_ssh_config prov st = Inr c \<and>
       health_check (Some svc)
         = Inr \<lparr>status = ''OK'', conn_hostname = hostname c, conn_username = username c,
                using_ssh_config = truthy (ssh_host_alias st)\<rparr>"
  by (drule startup_event_service) (cases "ssh_host_alias st"; simp add: health_check_def)

text \<open>
  Claim C7, which the code does not meet. Started with an alias that is the empty
  string, the service takes the branch of the direct parameters (the resolver tests the
  truth value of the alias), and \<open>/health\<close> reports the direct hostname and username
  together with \<open>using_ssh_config = true\<close> (the handler tests \<open>is not None\<close>).
\<close>

theorem health_check_empty_alias:
  "\<exists>svc. startup_event prov empty_alias_settings all_ok = Some (None, Some svc) \<and>
         \<not> truthy (ssh_host_alias (settings svc)) \<and>
         ssh_config svc = \<lparr>hostname = ssh_host empty_alias_settings,
                           username = ssh_username empty_alias_settings,
                           key_filename = ssh_key_path empty_alias_settings, port = 22\<rparr> \<and>
         health_check (Some svc)
           = Inr \<lparr>status = ''OK'', conn_hostname = Some ''files.example.org'',
                  conn_username = Some ''alice'', using_ssh_config = True\<rparr>"
  by (simp add: startup_event_def DataProxyService_init_def DataProxyService_get_ssh_config_def
      start_def start_body_def and_then_def tunnel_create_def tunnel_start_def
      ssh_create_def ssh_set_policy_def ssh_connect_def exec_command_def all_ok_def
      empty_alias_settings_def example_settings_def health_check_def)

section \<open>The remote commands\<close>

lemma launch_command_example:
  "launch_command ''/srv/data'' 9001 = ''cd /srv/data && python3 -m http.server 9001 > /dev/null 2>&1 &''"
  by (simp add: launch_command_def server_command_def str_int_def str_nat.simps digit_char_def)

lemma kill_command_example:
  "kill_command 9001 = ''pkill -f '' @ [CHR 0x27] @ ''python -m http.server 9001'' @ [CHR 0x27]"
  by (simp add: kill_command_def kill_pattern_def str_int_def str_nat.simps digit_char_def)

lemma start_issues_kill_then_launch:
  "start env s = Done s' \<Longrightarrow>
   \<exists>c. ssh_client s' = Some c \<and>
       executed c = [kill_command (remote_port (settings s)),
                     launch_command (data_path (settings s)) (remote_port (settings s))]"
  by (drule start_Done_fields) simp

lemma matches_here_prefix: "matches_here t (t @ r)"
  by (induction t) simp_all

lemma pkill_f_matches_self: "pkill_f_matches t t"
  using matches_here_prefix [of t "[]"] by (cases t) simp_all

lemma digit_char_in: "d < 10 \<Longrightarrow> digit_char d \<in> port_chars"
proof -
  assume "d < 10"
  then have "d < length ''0123456789''" by simp
  then have "''0123456789'' ! d \<in> set ''0123456789''" by (rule nth_mem)
  then show ?thesis by (simp add: digit_char_def port_chars_def)
qed

lemma str_nat_small: "n < 10 \<Longrightarrow> str_nat n = [digit_char n]"
  by (subst str_nat.simps) simp

lemma str_nat_big: "\<not> n < 10 \<Longrightarrow> str_nat n = str_nat (n div 10) @ [digit_char (n mod 10)]"
  by (subst str_nat.simps) simp

lemma str_nat_chars: "set (str_nat n) \<subseteq> port_chars"
proof (induction n rule: str_nat.induct)
  case (1 n)
  show ?case
  proof (cases "n < 10")
    case True
    then show ?thesis
      by (simp add: str_nat_small digit_char_in)
  next
    case False
    have "n mod 10 < 10" by simp
    then have "digit_char (n mod 10) \<in> port_chars" by (rule digit_char_in)
    moreover have "set (str_nat (n div 10)) \<subseteq> port_chars"
      using False by (rule "1.IH")
    ultimately show ?thesis
      by (simp add: str_nat_big [OF False])
  qed
qed

lemma str_int_chars: "set (str_int i) \<subseteq> port_chars"
proof (cases "i < 0")
  case True
  have "CHR ''-'' \<in> port_chars"
    by (simp add: port_chars_def)
  with True str_nat_chars [of "nat (- i)"] show ?thesis
    by (simp add: str_int_def)
next
  case False
  with str_nat_chars [of "nat i"] show ?thesis
    by (simp add: str_int_def)
qed

lemma no_p_in_str_int: "CHR ''p'' \<notin> set (str_int i)"
proof -
  have "CHR ''p'' \<notin> port_chars"
    by (simp add: port_chars_def)
  with str_int_chars [of i] show ?thesis by blast
qed

lemma no_match_without_first:
  "c \<noteq> CHR ''.'' \<Longrightarrow> c \<notin> set t \<Longrightarrow> \<not> pkill_f_matches (c # ps) t"
  by (induction t) auto

lemma no_match_in_port: "\<not> pkill_f_matches (CHR ''p'' # ps) (str_int p)"
  by (rule no_match_without_first) (simp_all add: no_p_in_str_int)

text \<open>
  Claim C8, which the code does not meet. \<open>start\<close> does send the \<open>pkill\<close> command before
  the launch command, but its pattern names \<open>python\<close> followed by a blank, while the
  server it launches runs as \<open>python3\<close>: for every port, the pattern occurs nowhere in
  the command line of a server this controller launched, so \<open>pkill -f\<close> leaves such a
  server running.
\<close>

theorem kill_pattern_misses_launched_server:
  "\<not> pkill_f_matches (kill_pattern p) (server_command p)"
  using no_match_in_port [of "''ython -m http.server '' @ str_int p" p]
  by (simp add: kill_pattern_def server_command_def)

end
